theory Spec2Isabelle
  imports Main
begin

section \<open>Data model\<close>

text \<open>
  A \<^verbatim>\<open>json.RawMessage\<close> is a byte slice; \<open>None\<close> is the nil slice, which the
  constructors tell apart from every non-nil slice. \<^verbatim>\<open>ServiceState\<close> is an integer
  type (\<^verbatim>\<open>int(newState)\<close> in \<^verbatim>\<open>newEventStatus\<close>); offers are Go \<^verbatim>\<open>int\<close>s. No
  arithmetic is done on either, only comparisons, so both are \<open>int\<close>.
\<close>

type_synonym RawMessage = "string option"

type_synonym ServiceState = int

definition lowestOffer :: int where
  "lowestOffer = 4000"

text \<open>
  Modelled from the spec: the constant \<^verbatim>\<open>stateRegistration\<close>, used by the validation
  code and declared elsewhere in the package. The specification numbers the phases
  Registration = 1, Offer = 2, Closed = 3.
\<close>

definition stateRegistration :: ServiceState where
  "stateRegistration = 1"

text \<open>
  Modelled from the spec: the constant \<^verbatim>\<open>stateOffer\<close>, used by the validation of
  offers and declared elsewhere in the package (Offer = 2).
\<close>

definition stateOffer :: ServiceState where
  "stateOffer = 2"

text \<open>Modelled from the spec: the third phase, Closed = 3.\<close>

definition stateClosed :: ServiceState where
  "stateClosed = 3"

text \<open>
  The fields of \<^verbatim>\<open>Database\<close> that the events read and write: \<^verbatim>\<open>db.bieter\<close>
  (\<^verbatim>\<open>map[string]json.RawMessage\<close>), \<^verbatim>\<open>db.offer\<close> (\<^verbatim>\<open>map[string]int\<close>) and
  \<^verbatim>\<open>db.state\<close>. Both maps are allocated (never the nil map).
\<close>

record Database =
  bieter :: "string \<rightharpoonup> RawMessage"
  offer :: "string \<rightharpoonup> int"
  state :: ServiceState

text \<open>
  Every error the event code builds is a \<^verbatim>\<open>validationError\<close>; its message is kept
  symbolically, with the values that \<^verbatim>\<open>fmt.Sprintf\<close> puts into it.
  \<^item> \<open>KeineDaten\<close>: "Keine Daten uebergeben"
  \<^item> \<open>UngueltigeDaten\<close>: "Ungueltige Daten uebergeben"
  \<^item> \<open>InvalidState\<close>: "invalid state"
  \<^item> \<open>IDExistiert\<close>: "Bieter ID existiert bereits"
  \<^item> \<open>BieterNotExist ID\<close>: "Bieter ID does not exist"
  \<^item> \<open>UngueltigerState n\<close>: "Ungueltiger State mit nummer n"
  \<^item> \<open>GebotZuNiedrig n\<close>: "Das Gebot muss mindestens 4000 sein, nicht n"

  The other errors belong to the log: an event that the JSON encoder refuses, a record
  whose type tag \<^verbatim>\<open>getEvent\<close> does not know, and a record whose body does not fit
  the event.
\<close>

datatype message =
    KeineDaten
  | UngueltigeDaten
  | InvalidState
  | IDExistiert
  | BieterNotExist string
  | UngueltigerState int
  | GebotZuNiedrig int

datatype error =
    validationError message
  | marshalError string
  | unknownEvent string
  | unmarshalError string

definition errIDExists :: error where
  "errIDExists = validationError IDExistiert"

record eventUpdate =
  ID :: string
  Payload :: RawMessage
  create :: bool
  asAdmin :: bool

record eventDelete =
  ID :: string
  asAdmin :: bool

record eventServiceState =
  NewState :: ServiceState

record eventOffer =
  ID :: string
  Offer :: int
  asAdmin :: bool

text \<open>
  The interface \<^verbatim>\<open>Event\<close> with its five implementations. \<^verbatim>\<open>eventOfferClear\<close> is
  the empty struct.
\<close>

datatype Event =
    EventUpdate eventUpdate
  | EventDelete eventDelete
  | EventServiceState eventServiceState
  | EventOffer eventOffer
  | EventOfferClear

text \<open>The zero values \<^verbatim>\<open>eventUpdate{}\<close>, \<^verbatim>\<open>eventDelete{}\<close>, ...\<close>

definition zeroEventUpdate :: eventUpdate where
  "zeroEventUpdate =
     \<lparr>eventUpdate.ID = [], Payload = None, create = False, eventUpdate.asAdmin = False\<rparr>"

definition zeroEventDelete :: eventDelete where
  "zeroEventDelete = \<lparr>eventDelete.ID = [], eventDelete.asAdmin = False\<rparr>"

definition zeroEventServiceState :: eventServiceState where
  "zeroEventServiceState = \<lparr>NewState = 0\<rparr>"

definition zeroEventOffer :: eventOffer where
  "zeroEventOffer = \<lparr>eventOffer.ID = [], Offer = 0, eventOffer.asAdmin = False\<rparr>"

section \<open>The events\<close>

definition getEvent :: "string \<Rightarrow> Event option" where
  "getEvent eventType =
     (if eventType = ''update'' then Some (EventUpdate zeroEventUpdate)
      else if eventType = ''delete'' then Some (EventDelete zeroEventDelete)
      else if eventType = ''state'' then Some (EventServiceState zeroEventServiceState)
      else if eventType = ''offer'' then Some (EventOffer zeroEventOffer)
      else if eventType = ''offer-clear'' then Some EventOfferClear
      else None)"

subsection \<open>eventUpdate\<close>

text \<open>
  \<^verbatim>\<open>json.Valid\<close> belongs to the Go library; the constructors take it as the
  parameter \<open>jsonValid\<close>. A Go function returning \<^verbatim>\<open>(eventUpdate, error)\<close> returns
  both values, so the model returns the pair: the error is \<open>None\<close> for \<^verbatim>\<open>nil\<close>.
\<close>

definition newEventUpdate ::
  "(string \<Rightarrow> bool) \<Rightarrow> string \<Rightarrow> RawMessage \<Rightarrow> bool \<Rightarrow> eventUpdate \<times> error option" where
  "newEventUpdate jsonValid bid payload admin =
     (case payload of
        None \<Rightarrow> (zeroEventUpdate, Some (validationError KeineDaten))
      | Some bs \<Rightarrow>
          if \<not> jsonValid bs then (zeroEventUpdate, Some (validationError UngueltigeDaten))
          else (\<lparr>eventUpdate.ID = bid, Payload = payload, create = False,
                  eventUpdate.asAdmin = admin\<rparr>, None))"

definition newEventCreate ::
  "(string \<Rightarrow> bool) \<Rightarrow> string \<Rightarrow> RawMessage \<Rightarrow> bool \<Rightarrow> eventUpdate \<times> error option" where
  "newEventCreate jsonValid bid payload admin =
     (case newEventUpdate jsonValid bid payload admin of
        (e, err) \<Rightarrow> (e\<lparr>create := True\<rparr>, err))"

definition eventUpdate_Name :: "eventUpdate \<Rightarrow> string" where
  "eventUpdate_Name e = ''update''"

definition eventUpdate_validate :: "eventUpdate \<Rightarrow> Database \<Rightarrow> error option" where
  "eventUpdate_validate e db =
     (if \<not> eventUpdate.asAdmin e \<and> state db \<noteq> stateRegistration
      then Some (validationError InvalidState)
      else let exist = (bieter db (eventUpdate.ID e) \<noteq> None) in
        if create e then (if exist then Some errIDExists else None)
        else if \<not> exist then Some (validationError (BieterNotExist (eventUpdate.ID e)))
        else None)"

definition eventUpdate_execute :: "eventUpdate \<Rightarrow> Database \<Rightarrow> Database" where
  "eventUpdate_execute e db = db\<lparr>bieter := (bieter db)(eventUpdate.ID e \<mapsto> Payload e)\<rparr>"

subsection \<open>eventDelete\<close>

definition newEventDelete :: "string \<Rightarrow> bool \<Rightarrow> eventDelete" where
  "newEventDelete bid admin = \<lparr>eventDelete.ID = bid, eventDelete.asAdmin = admin\<rparr>"

definition eventDelete_Name :: "eventDelete \<Rightarrow> string" where
  "eventDelete_Name e = ''delete''"

definition eventDelete_validate :: "eventDelete \<Rightarrow> Database \<Rightarrow> error option" where
  "eventDelete_validate e db =
     (if \<not> eventDelete.asAdmin e \<and> state db \<noteq> stateRegistration
      then Some (validationError InvalidState)
      else None)"

definition eventDelete_execute :: "eventDelete \<Rightarrow> Database \<Rightarrow> Database" where
  "eventDelete_execute e db = db\<lparr>bieter := (bieter db)(eventDelete.ID e := None)\<rparr>"

subsection \<open>eventServiceState\<close>

definition newEventStatus :: "ServiceState \<Rightarrow> eventServiceState \<times> error option" where
  "newEventStatus newState =
     (if newState < 1 \<or> newState > 3
      then (zeroEventServiceState, Some (validationError (UngueltigerState newState)))
      else (\<lparr>NewState = newState\<rparr>, None))"

definition eventServiceState_Name :: "eventServiceState \<Rightarrow> string" where
  "eventServiceState_Name e = ''state''"

definition eventServiceState_validate :: "eventServiceState \<Rightarrow> Database \<Rightarrow> error option" where
  "eventServiceState_validate e db = None"

definition eventServiceState_execute :: "eventServiceState \<Rightarrow> Database \<Rightarrow> Database" where
  "eventServiceState_execute e db = db\<lparr>state := NewState e\<rparr>"

subsection \<open>eventOffer\<close>

definition newEventOffer :: "string \<Rightarrow> int \<Rightarrow> bool \<Rightarrow> eventOffer \<times> error option" where
  "newEventOffer bid amount admin =
     (if amount < lowestOffer
      then (zeroEventOffer, Some (validationError (GebotZuNiedrig amount)))
      else (\<lparr>eventOffer.ID = bid, Offer = amount, eventOffer.asAdmin = admin\<rparr>, None))"

definition eventOffer_Name :: "eventOffer \<Rightarrow> string" where
  "eventOffer_Name e = ''offer''"

definition eventOffer_validate :: "eventOffer \<Rightarrow> Database \<Rightarrow> error option" where
  "eventOffer_validate e db =
     (if \<not> eventOffer.asAdmin e \<and> state db \<noteq> stateOffer
      then Some (validationError InvalidState)
      else if bieter db (eventOffer.ID e) = None
      then Some (validationError (BieterNotExist (eventOffer.ID e)))
      else None)"

definition eventOffer_execute :: "eventOffer \<Rightarrow> Database \<Rightarrow> Database" where
  "eventOffer_execute e db = db\<lparr>offer := (offer db)(eventOffer.ID e \<mapsto> Offer e)\<rparr>"

subsection \<open>eventOfferClear\<close>

definition newEventOfferClear :: Event where
  "newEventOfferClear = EventOfferClear"

definition eventOfferClear_Name :: string where
  "eventOfferClear_Name = ''offer-clear''"

definition eventOfferClear_validate :: "Database \<Rightarrow> error option" where
  "eventOfferClear_validate db = None"

definition eventOfferClear_execute :: "Database \<Rightarrow> Database" where
  "eventOfferClear_execute db = db\<lparr>offer := Map.empty\<rparr>"

subsection \<open>Dispatch through the interface\<close>

fun Name :: "Event \<Rightarrow> string" where
  "Name (EventUpdate e) = eventUpdate_Name e"
| "Name (EventDelete e) = eventDelete_Name e"
| "Name (EventServiceState e) = eventServiceState_Name e"
| "Name (EventOffer e) = eventOffer_Name e"
| "Name EventOfferClear = eventOfferClear_Name"

fun validate :: "Event \<Rightarrow> Database \<Rightarrow> error option" where
  "validate (EventUpdate e) db = eventUpdate_validate e db"
| "validate (EventDelete e) db = eventDelete_validate e db"
| "validate (EventServiceState e) db = eventServiceState_validate e db"
| "validate (EventOffer e) db = eventOffer_validate e db"
| "validate EventOfferClear db = eventOfferClear_validate db"

fun execute :: "Event \<Rightarrow> Database \<Rightarrow> Database" where
  "execute (EventUpdate e) db = eventUpdate_execute e db"
| "execute (EventDelete e) db = eventDelete_execute e db"
| "execute (EventServiceState e) db = eventServiceState_execute e db"
| "execute (EventOffer e) db = eventOffer_execute e db"
| "execute EventOfferClear db = eventOfferClear_execute db"

section \<open>The JSON form of an event\<close>

text \<open>
  The struct declarations fix what \<^verbatim>\<open>encoding/json\<close> writes and reads: the exported
  fields, under the keys of their \<^verbatim>\<open>json\<close> tags (\<^verbatim>\<open>id\<close>, \<^verbatim>\<open>payload\<close>, \<^verbatim>\<open>state\<close>,
  \<^verbatim>\<open>offer\<close>); the unexported fields \<^verbatim>\<open>create\<close> and \<^verbatim>\<open>asAdmin\<close> are neither
  written nor read. A JSON object is a list of keys with values; a value is a string, a
  number, or the text of any other value.

  A \<^verbatim>\<open>json.RawMessage\<close> is not written byte for byte. Its \<^verbatim>\<open>MarshalJSON\<close> gives
  the bytes \<^verbatim>\<open>null\<close> for the nil slice and the slice itself otherwise, and the encoder
  passes the result through its compaction with HTML escaping: bytes that are not
  valid JSON are refused (the same scanner as \<^verbatim>\<open>json.Valid\<close>, the parameter
  \<open>jsonValid\<close>); in valid JSON the white space outside of strings (space, tab,
  carriage return, line feed) is dropped, the bytes \<^verbatim>\<open><\<close>, \<^verbatim>\<open>>\<close> and \<^verbatim>\<open>&\<close> become
  the escapes \<^verbatim>\<open>u003c\<close>, \<^verbatim>\<open>u003e\<close> and \<^verbatim>\<open>u0026\<close> behind a backslash, and the
  UTF-8 bytes of U+2028 and U+2029 (E2 80 A8, E2 80 A9) become the escapes
  \<^verbatim>\<open>u2028\<close> and \<^verbatim>\<open>u2029\<close>. \<open>compactScan\<close> is that pass over the bytes, with the two
  facts of the scanner that it needs: whether the byte is inside a string, and
  whether it follows a backslash there.
\<close>

definition isSpace :: "char \<Rightarrow> bool" where
  "isSpace c = (c = CHR 0x20 \<or> c = CHR 0x09 \<or> c = CHR 0x0D \<or> c = CHR 0x0A)"

fun compactScan :: "bool \<Rightarrow> bool \<Rightarrow> string \<Rightarrow> string" where
  "compactScan inString escaped [] = []"
| "compactScan inString escaped (c # cs) =
     (if c = CHR 0x3C then CHR 0x5C # ''u003c'' @ compactScan inString False cs
      else if c = CHR 0x3E then CHR 0x5C # ''u003e'' @ compactScan inString False cs
      else if c = CHR 0x26 then CHR 0x5C # ''u0026'' @ compactScan inString False cs
      else if c = CHR 0xE2 \<and> take 2 cs = [CHR 0x80, CHR 0xA8]
        then CHR 0x5C # ''u2028'' @ compactScan inString False (drop 2 cs)
      else if c = CHR 0xE2 \<and> take 2 cs = [CHR 0x80, CHR 0xA9]
        then CHR 0x5C # ''u2029'' @ compactScan inString False (drop 2 cs)
      else if inString then
        (if escaped then c # compactScan True False cs
         else if c = CHR 0x5C then c # compactScan True True cs
         else if c = CHR 0x22 then c # compactScan False False cs
         else c # compactScan True False cs)
      else if isSpace c then compactScan False False cs
      else if c = CHR 0x22 then c # compactScan True False cs
      else c # compactScan False False cs)"

definition compact :: "string \<Rightarrow> string" where
  "compact src = compactScan False False src"

definition RawMessage_MarshalJSON :: "RawMessage \<Rightarrow> string" where
  "RawMessage_MarshalJSON m = (case m of None \<Rightarrow> ''null'' | Some bs \<Rightarrow> bs)"

definition marshalRaw :: "(string \<Rightarrow> bool) \<Rightarrow> RawMessage \<Rightarrow> string option" where
  "marshalRaw jsonValid m =
     (if jsonValid (RawMessage_MarshalJSON m)
      then Some (compact (RawMessage_MarshalJSON m))
      else None)"

datatype jvalue = JString string | JNumber int | JRaw string

type_synonym jobject = "(string \<times> jvalue) list"

text \<open>
  Writing an event: the tagged fields in the order of the declaration. Only the raw
  message can make the encoder fail. Strings and numbers are kept as values; a string
  of valid UTF-8 comes back from its JSON text as it went in (the IDs of the store are
  short numeric strings).
\<close>

fun marshal :: "(string \<Rightarrow> bool) \<Rightarrow> Event \<Rightarrow> jobject option" where
  "marshal jsonValid (EventUpdate e) =
     (case marshalRaw jsonValid (Payload e) of
        None \<Rightarrow> None
      | Some bs \<Rightarrow> Some [(''id'', JString (eventUpdate.ID e)), (''payload'', JRaw bs)])"
| "marshal jsonValid (EventDelete e) = Some [(''id'', JString (eventDelete.ID e))]"
| "marshal jsonValid (EventServiceState e) = Some [(''state'', JNumber (NewState e))]"
| "marshal jsonValid (EventOffer e) =
     Some [(''id'', JString (eventOffer.ID e)), (''offer'', JNumber (Offer e))]"
| "marshal jsonValid EventOfferClear = Some []"

text \<open>
  Reading a field into a struct: an absent key leaves the field as it was, a value of
  the wrong kind is an error. A raw message field takes the text of the value, which
  is never the nil slice: the text \<^verbatim>\<open>null\<close> is read as these four bytes.

  The reading is modelled for the objects that \<open>marshal\<close> writes: keys spelled as the
  tags and written once, each value of the kind of its field, numbers as unbounded
  integers like the Go \<^verbatim>\<open>int\<close>s of the events. What the decoder does beyond that
  (a key in another case, a key given twice, a number outside the range of \<^verbatim>\<open>int\<close>,
  a string or number where a raw message stands) is found only in a log that the
  store did not write, and is not part of the model.
\<close>

definition fieldString :: "jobject \<Rightarrow> string \<Rightarrow> string \<Rightarrow> string option" where
  "fieldString obj k old =
     (case map_of obj k of None \<Rightarrow> Some old | Some (JString s) \<Rightarrow> Some s | Some _ \<Rightarrow> None)"

definition fieldInt :: "jobject \<Rightarrow> string \<Rightarrow> int \<Rightarrow> int option" where
  "fieldInt obj k old =
     (case map_of obj k of None \<Rightarrow> Some old | Some (JNumber n) \<Rightarrow> Some n | Some _ \<Rightarrow> None)"

definition fieldRaw :: "jobject \<Rightarrow> string \<Rightarrow> RawMessage \<Rightarrow> RawMessage option" where
  "fieldRaw obj k old =
     (case map_of obj k of
        None \<Rightarrow> Some old
      | Some (JRaw bs) \<Rightarrow> Some (Some bs)
      | Some _ \<Rightarrow> None)"

fun unmarshal :: "jobject \<Rightarrow> Event \<Rightarrow> Event option" where
  "unmarshal obj (EventUpdate e) =
     (case fieldString obj ''id'' (eventUpdate.ID e) of
        None \<Rightarrow> None
      | Some i \<Rightarrow>
          (case fieldRaw obj ''payload'' (Payload e) of
             None \<Rightarrow> None
           | Some p \<Rightarrow> Some (EventUpdate (e\<lparr>eventUpdate.ID := i, Payload := p\<rparr>))))"
| "unmarshal obj (EventDelete e) =
     (case fieldString obj ''id'' (eventDelete.ID e) of
        None \<Rightarrow> None
      | Some i \<Rightarrow> Some (EventDelete (e\<lparr>eventDelete.ID := i\<rparr>)))"
| "unmarshal obj (EventServiceState e) =
     (case fieldInt obj ''state'' (NewState e) of
        None \<Rightarrow> None
      | Some n \<Rightarrow> Some (EventServiceState (e\<lparr>NewState := n\<rparr>)))"
| "unmarshal obj (EventOffer e) =
     (case fieldString obj ''id'' (eventOffer.ID e) of
        None \<Rightarrow> None
      | Some i \<Rightarrow>
          (case fieldInt obj ''offer'' (Offer e) of
             None \<Rightarrow> None
           | Some n \<Rightarrow> Some (EventOffer (e\<lparr>eventOffer.ID := i, Offer := n\<rparr>))))"
| "unmarshal obj EventOfferClear = Some EventOfferClear"

text \<open>
  The payload as it comes back from the log, and a database with every payload in
  that form. Both are vocabulary for the statements about the replay.
\<close>

definition encodedRaw :: "RawMessage \<Rightarrow> RawMessage" where
  "encodedRaw m = Some (compact (RawMessage_MarshalJSON m))"

definition replayedDatabase :: "Database \<Rightarrow> Database" where
  "replayedDatabase db = db\<lparr>bieter := (\<lambda>k. map_option encodedRaw (bieter db k))\<rparr>"

section \<open>The store and its log\<close>

text \<open>
  The store around the events (its getters, its initial state, the operation that
  applies an event and the replay of the log at startup) lives elsewhere in the
  package. Each definition of this section follows the specification and says so.
\<close>

text \<open>
  Modelled from the spec: the getter \<^verbatim>\<open>Offer(id)\<close> of the store, "pure read, 0 if
  absent", which is the read of a Go map with the zero value for a missing key.
\<close>

definition Database_Offer :: "Database \<Rightarrow> string \<Rightarrow> int" where
  "Database_Offer db bid = (case offer db bid of None \<Rightarrow> 0 | Some n \<Rightarrow> n)"

text \<open>
  Modelled from the spec: the initial state of the store, "empty members, empty offers,
  phase = Registration".
\<close>

definition emptyDatabase :: Database where
  "emptyDatabase = \<lparr>bieter = Map.empty, offer = Map.empty, state = stateRegistration\<rparr>"

text \<open>
  Modelled from the spec: the record of the event log, "an event-type tag (string) and
  its encoded payload", and the store as the database with its log.
\<close>

record logRecord =
  eventType :: string
  body :: jobject

record Store =
  database :: Database
  eventLog :: "logRecord list"


text \<open>
  Modelled from the spec: the codec of the log. Encoding writes the type tag and the
  payload, and fails where the JSON encoder does; decoding resolves the event
  implementation by the type tag (\<open>getEvent\<close>) and reads the payload into it. An
  unknown tag is "no such event".
\<close>

definition encodeEvent :: "(string \<Rightarrow> bool) \<Rightarrow> Event \<Rightarrow> logRecord option" where
  "encodeEvent jsonValid e =
     (case marshal jsonValid e of
        None \<Rightarrow> None
      | Some b \<Rightarrow> Some \<lparr>eventType = Name e, body = b\<rparr>)"

definition decodeEvent :: "logRecord \<Rightarrow> error + Event" where
  "decodeEvent r =
     (case getEvent (eventType r) of
        None \<Rightarrow> Inl (unknownEvent (eventType r))
      | Some e0 \<Rightarrow>
          (case unmarshal (body r) e0 of
             None \<Rightarrow> Inl (unmarshalError (eventType r))
           | Some e \<Rightarrow> Inr e))"

text \<open>
  Modelled from the spec: \<^verbatim>\<open>Apply\<close>. It runs \<^verbatim>\<open>validate\<close> on the current state; if
  that fails, the validation error is returned untouched, with no log write and no
  mutation. Otherwise the encoded event is appended to the log; if that fails, the
  operation fails and the state is not mutated; if not, \<^verbatim>\<open>execute\<close> is called. The
  log is a list, so the only failure of the append is the one of the encoder. The
  lock is not modelled (one event is applied at a time).
\<close>

definition Apply :: "(string \<Rightarrow> bool) \<Rightarrow> Event \<Rightarrow> Store \<Rightarrow> error option \<times> Store" where
  "Apply jsonValid e s =
     (case validate e (database s) of
        Some err \<Rightarrow> (Some err, s)
      | None \<Rightarrow>
          (case encodeEvent jsonValid e of
             None \<Rightarrow> (Some (marshalError (Name e)), s)
           | Some r \<Rightarrow>
               (None, \<lparr>database = execute e (database s), eventLog = eventLog s @ [r]\<rparr>)))"


text \<open>
  Modelled from the spec: the replay at startup. The log is read front to back; each
  record is decoded by its type tag; an unrecognised tag fails the whole startup;
  \<^verbatim>\<open>execute\<close> is called directly, without \<^verbatim>\<open>validate\<close>. An empty log yields the
  initial state.
\<close>

fun replay :: "logRecord list \<Rightarrow> Database \<Rightarrow> error + Database" where
  "replay [] db = Inr db"
| "replay (r # rs) db =
     (case decodeEvent r of
        Inl err \<Rightarrow> Inl err
      | Inr e \<Rightarrow> replay rs (execute e db))"

definition loadDatabase :: "logRecord list \<Rightarrow> error + Database" where
  "loadDatabase lg = replay lg emptyDatabase"

section \<open>Auxiliary facts about the codec and the replay\<close>

text \<open>
  What the encoder writes for a raw message is the form in which it comes back.
\<close>

lemma marshalRaw_encodedRaw:
  "marshalRaw jsonValid m = Some bs \<Longrightarrow> encodedRaw m = Some bs"
  by (auto simp: marshalRaw_def encodedRaw_def split: if_splits)



text \<open>
  Decoding an encoded event succeeds. The decoded event holds the payload in its
  encoded form and executes on the replayed database as the encoded event did on the
  live one: the fields that the encoding drops are read by \<open>validate\<close> only.
\<close>

lemma decode_encode_execute:
  assumes "encodeEvent jsonValid e = Some r"
  shows "\<exists>e'. decodeEvent r = Inr e' \<and>
           (\<forall>db. execute e' (replayedDatabase db) = replayedDatabase (execute e db))"
proof (cases e)
  case (EventUpdate u)
  with assms obtain bs where m: "marshalRaw jsonValid (Payload u) = Some bs"
    and r: "r = \<lparr>eventType = ''update'',
                 body = [(''id'', JString (eventUpdate.ID u)), (''payload'', JRaw bs)]\<rparr>"
    by (auto simp: encodeEvent_def eventUpdate_Name_def split: option.splits)
  from m have "encodedRaw (Payload u) = Some bs"
    by (rule marshalRaw_encodedRaw)
  with r EventUpdate show ?thesis
    by (auto simp: decodeEvent_def getEvent_def zeroEventUpdate_def fieldString_def
        fieldRaw_def eventUpdate_execute_def replayedDatabase_def fun_eq_iff)
next
  case (EventDelete d)
  with assms show ?thesis
    by (auto simp: encodeEvent_def decodeEvent_def getEvent_def eventDelete_Name_def
        zeroEventDelete_def fieldString_def eventDelete_execute_def replayedDatabase_def
        fun_eq_iff)
next
  case (EventServiceState t)
  with assms show ?thesis
    by (auto simp: encodeEvent_def decodeEvent_def getEvent_def eventServiceState_Name_def
        zeroEventServiceState_def fieldInt_def eventServiceState_execute_def
        replayedDatabase_def)
next
  case (EventOffer f)
  with assms show ?thesis
    by (auto simp: encodeEvent_def decodeEvent_def getEvent_def eventOffer_Name_def
        zeroEventOffer_def fieldString_def fieldInt_def eventOffer_execute_def
        replayedDatabase_def)
next
  case EventOfferClear
  with assms show ?thesis
    by (auto simp: encodeEvent_def decodeEvent_def getEvent_def eventOfferClear_Name_def
        eventOfferClear_execute_def replayedDatabase_def)
qed




lemma replay_unknown:
  "getEvent (eventType r) = None \<Longrightarrow> \<exists>err. replay (pre @ r # post) db = Inl err"
proof (induction pre arbitrary: db)
  case Nil
  then show ?case by (simp add: decodeEvent_def)
next
  case (Cons a pre)
  then show ?case by (cases "decodeEvent a") auto
qed

lemma replay_encoded_then_unknown:
  assumes "decodeEvent r = Inl err"
  shows "map (encodeEvent jsonValid) es = map Some rs \<Longrightarrow>
         replay (rs @ r # post) db = Inl err"
proof (induction es arbitrary: rs db)
  case Nil
  then show ?case by (simp add: assms)
next
  case (Cons e es)
  then obtain r1 rs1 where rs: "rs = r1 # rs1" and enc: "encodeEvent jsonValid e = Some r1"
    and rest: "map (encodeEvent jsonValid) es = map Some rs1"
    by (cases rs) auto
  obtain e' where "decodeEvent r1 = Inr e'"
    using decode_encode_execute [OF enc] by blast
  with rs Cons.IH [OF rest] show ?case by simp
qed

section \<open>The claims\<close>




text \<open>
  C2. For every event variant and every store state: when \<open>validate\<close> returns an error,
  applying the event leaves the store as it was (member map, offer map, phase and log)
  and hands that same error to the caller.
\<close>

theorem validation_failure_no_effect:
  assumes "validate e (database s) = Some err"
  shows "Apply jsonValid e s = (Some err, s)"
  using assms by (simp add: Apply_def)

theorem validation_failure_no_effect_witness:
  "validate (EventDelete (newEventDelete ''17'' False))
     (database \<lparr>database = emptyDatabase\<lparr>state := stateOffer\<rparr>, eventLog = []\<rparr>) =
     Some (validationError InvalidState) \<and>
   Apply ((=) ''{}'') (EventDelete (newEventDelete ''17'' False))
     \<lparr>database = emptyDatabase\<lparr>state := stateOffer\<rparr>, eventLog = []\<rparr> =
     (Some (validationError InvalidState),
      \<lparr>database = emptyDatabase\<lparr>state := stateOffer\<rparr>, eventLog = []\<rparr>)"
proof -
  have v: "validate (EventDelete (newEventDelete ''17'' False))
     (database \<lparr>database = emptyDatabase\<lparr>state := stateOffer\<rparr>, eventLog = []\<rparr>) =
     Some (validationError InvalidState)"
    by (simp add: eventDelete_validate_def newEventDelete_def stateOffer_def
        stateRegistration_def)
  from validation_failure_no_effect [OF v] v show ?thesis by simp
qed

text \<open>
  C3. In every store state whose phase is not Registration, a Create, Update or Delete
  event with \<open>asAdmin = false\<close> fails validation with a validation error ("invalid
  state"). With \<open>asAdmin = true\<close> the phase is not looked at, in any phase: a Create
  fails only when the ID exists, an Update only when it does not, a Delete never.
\<close>

theorem phase_gate_member_events:
  "(state db \<noteq> stateRegistration \<longrightarrow>
      validate (EventUpdate (e\<lparr>eventUpdate.asAdmin := False\<rparr>)) db =
        Some (validationError InvalidState) \<and>
      validate (EventDelete (d\<lparr>eventDelete.asAdmin := False\<rparr>)) db =
        Some (validationError InvalidState)) \<and>
   validate (EventUpdate (e\<lparr>eventUpdate.asAdmin := True\<rparr>)) db =
     (if create e
      then (if eventUpdate.ID e \<in> dom (bieter db) then Some errIDExists else None)
      else (if eventUpdate.ID e \<in> dom (bieter db) then None
            else Some (validationError (BieterNotExist (eventUpdate.ID e))))) \<and>
   validate (EventDelete (d\<lparr>eventDelete.asAdmin := True\<rparr>)) db = None"
  by (auto simp: eventUpdate_validate_def eventDelete_validate_def Let_def)

theorem phase_gate_member_events_witness:
  "state (emptyDatabase\<lparr>state := stateOffer\<rparr>) \<noteq> stateRegistration \<and>
   validate (EventUpdate (fst (newEventCreate (\<lambda>bs. True) ''17'' (Some ''{}'') False)))
     (emptyDatabase\<lparr>state := stateOffer\<rparr>) = Some (validationError InvalidState) \<and>
   validate (EventDelete (newEventDelete ''17'' False))
     (emptyDatabase\<lparr>state := stateOffer\<rparr>) = Some (validationError InvalidState) \<and>
   validate (EventUpdate (fst (newEventCreate (\<lambda>bs. True) ''17'' (Some ''{}'') True)))
     (emptyDatabase\<lparr>state := stateOffer\<rparr>) = None"
  using phase_gate_member_events [of "emptyDatabase\<lparr>state := stateOffer\<rparr>"
      "fst (newEventCreate (\<lambda>bs. True) ''17'' (Some ''{}'') False)"
      "newEventDelete ''17'' False"]
  by (simp add: emptyDatabase_def stateOffer_def stateRegistration_def newEventCreate_def
      newEventUpdate_def newEventDelete_def)

text \<open>
  C4. Building a SetOffer event fails with a validation error whenever the amount is
  below the minimum of 4000, whatever the privilege. Validating one fails whenever
  \<open>asAdmin = false\<close> and the phase is not Offer, and fails whenever the target ID is
  not in the member map, also with \<open>asAdmin = true\<close>. Otherwise it is accepted, and
  \<open>execute\<close> sets the offer entry of that ID to the amount.
\<close>

theorem offer_event_checks:
  "(amount < 4000 \<longrightarrow>
      snd (newEventOffer bid amount admin) =
        Some (validationError (GebotZuNiedrig amount))) \<and>
   (4000 \<le> amount \<longrightarrow>
      newEventOffer bid amount admin =
        (\<lparr>eventOffer.ID = bid, Offer = amount, eventOffer.asAdmin = admin\<rparr>, None)) \<and>
   (\<not> eventOffer.asAdmin e \<and> state db \<noteq> stateOffer \<longrightarrow>
      validate (EventOffer e) db = Some (validationError InvalidState)) \<and>
   (eventOffer.ID e \<notin> dom (bieter db) \<longrightarrow>
      (\<exists>m. validate (EventOffer e) db = Some (validationError m)) \<and>
      validate (EventOffer (e\<lparr>eventOffer.asAdmin := True\<rparr>)) db =
        Some (validationError (BieterNotExist (eventOffer.ID e)))) \<and>
   ((eventOffer.asAdmin e \<or> state db = stateOffer) \<and> eventOffer.ID e \<in> dom (bieter db) \<longrightarrow>
      validate (EventOffer e) db = None \<and>
      execute (EventOffer e) db = db\<lparr>offer := (offer db)(eventOffer.ID e \<mapsto> Offer e)\<rparr> \<and>
      Database_Offer (execute (EventOffer e) db) (eventOffer.ID e) = Offer e)"
  by (auto simp: newEventOffer_def lowestOffer_def eventOffer_validate_def
      eventOffer_execute_def Database_Offer_def)

theorem offer_event_checks_witness:
  "snd (newEventOffer ''17'' 3000 True) = Some (validationError (GebotZuNiedrig 3000)) \<and>
   newEventOffer ''17'' 5000 False =
     (\<lparr>eventOffer.ID = ''17'', Offer = 5000, eventOffer.asAdmin = False\<rparr>, None) \<and>
   validate (EventOffer \<lparr>eventOffer.ID = ''17'', Offer = 5000, eventOffer.asAdmin = False\<rparr>)
     emptyDatabase = Some (validationError InvalidState) \<and>
   validate (EventOffer \<lparr>eventOffer.ID = ''17'', Offer = 5000, eventOffer.asAdmin = True\<rparr>)
     emptyDatabase = Some (validationError (BieterNotExist ''17'')) \<and>
   validate (EventOffer \<lparr>eventOffer.ID = ''17'', Offer = 5000, eventOffer.asAdmin = False\<rparr>)
     \<lparr>bieter = [''17'' \<mapsto> Some ''{}''], offer = Map.empty, state = stateOffer\<rparr> = None \<and>
   Database_Offer
     (execute (EventOffer \<lparr>eventOffer.ID = ''17'', Offer = 5000, eventOffer.asAdmin = False\<rparr>)
        \<lparr>bieter = [''17'' \<mapsto> Some ''{}''], offer = Map.empty, state = stateOffer\<rparr>) ''17'' = 5000"
proof -
  let ?e = "\<lparr>eventOffer.ID = ''17'', Offer = 5000, eventOffer.asAdmin = False\<rparr>"
  let ?db = "\<lparr>bieter = [''17'' \<mapsto> Some ''{}''], offer = Map.empty, state = stateOffer\<rparr>"
  have low: "(3000::int) < 4000" and high: "(4000::int) \<le> 5000"
    by simp_all
  have gate: "\<not> eventOffer.asAdmin ?e \<and> state emptyDatabase \<noteq> stateOffer"
    by (simp add: emptyDatabase_def stateRegistration_def stateOffer_def)
  have missing: "eventOffer.ID ?e \<notin> dom (bieter emptyDatabase)"
    by (simp add: emptyDatabase_def)
  have ok: "(eventOffer.asAdmin ?e \<or> state ?db = stateOffer) \<and> eventOffer.ID ?e \<in> dom (bieter ?db)"
    by simp
  from offer_event_checks [of 3000 "''17''" True ?e emptyDatabase] low gate missing
  have a: "snd (newEventOffer ''17'' 3000 True) = Some (validationError (GebotZuNiedrig 3000))"
    and b: "validate (EventOffer ?e) emptyDatabase = Some (validationError InvalidState)"
    and c: "validate (EventOffer (?e\<lparr>eventOffer.asAdmin := True\<rparr>)) emptyDatabase =
        Some (validationError (BieterNotExist (eventOffer.ID ?e)))"
    by blast+
  from offer_event_checks [of 5000 "''17''" False ?e ?db] high ok
  have d: "newEventOffer ''17'' 5000 False = (?e, None)"
    and f: "validate (EventOffer ?e) ?db = None"
    and g: "Database_Offer (execute (EventOffer ?e) ?db) (eventOffer.ID ?e) = Offer ?e"
    by blast+
  from a b c d f g show ?thesis by simp
qed

text \<open>
  C5. A type tag that is not one of the five recognised tags resolves to no event.
  A log record with such a tag is an error of decoding, and a log that holds one
  fails the startup replay as a whole: the record is never skipped. Behind records
  that are encoded events the error is the one of the unknown tag.
\<close>

theorem unknown_tag_rejected:
  assumes "tag \<notin> {''update'', ''delete'', ''state'', ''offer'', ''offer-clear''}"
  shows "getEvent tag = None \<and>
         decodeEvent \<lparr>eventType = tag, body = b\<rparr> = Inl (unknownEvent tag) \<and>
         (\<exists>err. loadDatabase (pre @ \<lparr>eventType = tag, body = b\<rparr> # post) = Inl err) \<and>
         (map (encodeEvent jsonValid) es = map Some rs \<longrightarrow>
            loadDatabase (rs @ \<lparr>eventType = tag, body = b\<rparr> # post) =
              Inl (unknownEvent tag))"
proof -
  let ?r = "\<lparr>eventType = tag, body = b\<rparr>"
  from assms have g: "getEvent tag = None"
    by (simp add: getEvent_def)
  then have d: "decodeEvent ?r = Inl (unknownEvent tag)"
    by (simp add: decodeEvent_def)
  from g have "getEvent (eventType ?r) = None"
    by simp
  from replay_unknown [OF this]
  have u: "\<exists>err. loadDatabase (pre @ ?r # post) = Inl err"
    by (simp add: loadDatabase_def)
  have "loadDatabase (rs @ ?r # post) = Inl (unknownEvent tag)"
    if "map (encodeEvent jsonValid) es = map Some rs"
    using replay_encoded_then_unknown [OF d that] by (simp add: loadDatabase_def)
  with g d u show ?thesis by blast
qed

theorem unknown_tag_rejected_witness:
  "''create'' \<notin> {''update'', ''delete'', ''state'', ''offer'', ''offer-clear''} \<and>
   getEvent ''create'' = None \<and>
   map (encodeEvent ((=) ''{}'')) [EventOfferClear] =
     map Some [\<lparr>eventType = ''offer-clear'', body = []\<rparr>] \<and>
   loadDatabase
     ([\<lparr>eventType = ''offer-clear'', body = []\<rparr>] @
      \<lparr>eventType = ''create'', body = [(''id'', JString ''17'')]\<rparr> #
      [\<lparr>eventType = ''offer-clear'', body = []\<rparr>]) = Inl (unknownEvent ''create'')"
proof -
  have t: "''create'' \<notin> {''update'', ''delete'', ''state'', ''offer'', ''offer-clear''}"
    by simp
  have enc: "map (encodeEvent ((=) ''{}'')) [EventOfferClear] =
     map Some [\<lparr>eventType = ''offer-clear'', body = []\<rparr>]"
    by (simp add: encodeEvent_def eventOfferClear_Name_def)
  from unknown_tag_rejected [OF t, of "[(''id'', JString ''17'')]" "[]"
      "[\<lparr>eventType = ''offer-clear'', body = []\<rparr>]" "(=) ''{}''" "[EventOfferClear]"
      "[\<lparr>eventType = ''offer-clear'', body = []\<rparr>]"] t enc
  show ?thesis by simp
qed

text \<open>
  C6. Building a SetPhase event fails with a validation error for every value outside
  {1, 2, 3}. For a value inside, it succeeds, the event passes validation in every
  store state, and right after its execution the phase read from the store is that value.
\<close>

theorem set_phase_range:
  "(n \<notin> {1, 2, 3} \<longrightarrow>
      snd (newEventStatus n) = Some (validationError (UngueltigerState n))) \<and>
   (n \<in> {1, 2, 3} \<longrightarrow>
      newEventStatus n = (\<lparr>NewState = n\<rparr>, None) \<and>
      validate (EventServiceState (fst (newEventStatus n))) db = None \<and>
      state (execute (EventServiceState (fst (newEventStatus n))) db) = n)"
  by (auto simp: newEventStatus_def eventServiceState_validate_def
      eventServiceState_execute_def)

theorem set_phase_range_witness:
  "snd (newEventStatus 0) = Some (validationError (UngueltigerState 0)) \<and>
   snd (newEventStatus 4) = Some (validationError (UngueltigerState 4)) \<and>
   newEventStatus 3 = (\<lparr>NewState = 3\<rparr>, None) \<and>
   state (execute (EventServiceState (fst (newEventStatus 3))) emptyDatabase) = 3"
proof -
  have out0: "(0::int) \<notin> {1, 2, 3}" and out4: "(4::int) \<notin> {1, 2, 3}"
    and in3: "(3::int) \<in> {1, 2, 3}"
    by simp_all
  from set_phase_range [of 0] out0
  have a: "snd (newEventStatus 0) = Some (validationError (UngueltigerState 0))"
    by blast
  from set_phase_range [of 4] out4
  have b: "snd (newEventStatus 4) = Some (validationError (UngueltigerState 4))"
    by blast
  from set_phase_range [of 3 emptyDatabase] in3
  have c: "newEventStatus 3 = (\<lparr>NewState = 3\<rparr>, None)"
    and d: "state (execute (EventServiceState (fst (newEventStatus 3))) emptyDatabase) = 3"
    by blast+
  from a b c d show ?thesis by simp
qed

text \<open>
  C7. Building a Create or an Update event fails exactly when the payload is missing
  (nil) or is not valid JSON, and then with a validation error. A Create event fails
  validation whenever its ID is already in the member map, also with
  \<open>asAdmin = true\<close>, where the error is the one of the existing ID.
\<close>

theorem member_event_construction:
  "(snd (newEventUpdate jsonValid bid payload admin) \<noteq> None) =
      (case payload of None \<Rightarrow> True | Some bs \<Rightarrow> \<not> jsonValid bs) \<and>
   (snd (newEventCreate jsonValid bid payload admin) \<noteq> None) =
      (case payload of None \<Rightarrow> True | Some bs \<Rightarrow> \<not> jsonValid bs) \<and>
   snd (newEventUpdate jsonValid bid payload admin) \<in>
      {None, Some (validationError KeineDaten), Some (validationError UngueltigeDaten)} \<and>
   snd (newEventCreate jsonValid bid payload admin) =
      snd (newEventUpdate jsonValid bid payload admin) \<and>
   (jsonValid bs \<longrightarrow>
      newEventUpdate jsonValid bid (Some bs) admin =
        (\<lparr>eventUpdate.ID = bid, Payload = Some bs, create = False,
           eventUpdate.asAdmin = admin\<rparr>, None) \<and>
      newEventCreate jsonValid bid (Some bs) admin =
        (\<lparr>eventUpdate.ID = bid, Payload = Some bs, create = True,
           eventUpdate.asAdmin = admin\<rparr>, None)) \<and>
   (create e \<and> eventUpdate.ID e \<in> dom (bieter db) \<longrightarrow>
      (\<exists>m. validate (EventUpdate e) db = Some (validationError m)) \<and>
      validate (EventUpdate (e\<lparr>eventUpdate.asAdmin := True\<rparr>)) db = Some errIDExists)"
  by (auto simp: newEventUpdate_def newEventCreate_def eventUpdate_validate_def Let_def
      errIDExists_def split: option.splits)

theorem member_event_construction_witness:
  "newEventCreate (\<lambda>bs. bs = ''{}'') ''17'' (Some ''{}'') True =
     (\<lparr>eventUpdate.ID = ''17'', Payload = Some ''{}'', create = True,
        eventUpdate.asAdmin = True\<rparr>, None) \<and>
   validate
     (EventUpdate \<lparr>eventUpdate.ID = ''17'', Payload = Some ''{}'', create = True,
        eventUpdate.asAdmin = True\<rparr>)
     \<lparr>bieter = [''17'' \<mapsto> Some ''[]''], offer = Map.empty, state = stateClosed\<rparr> =
     Some errIDExists \<and>
   snd (newEventCreate (\<lambda>bs. bs = ''{}'') ''17'' None True) = Some (validationError KeineDaten) \<and>
   snd (newEventUpdate (\<lambda>bs. bs = ''{}'') ''17'' (Some ''{'') True) =
     Some (validationError UngueltigeDaten)"
proof -
  let ?v = "\<lambda>bs. bs = ''{}''"
  let ?e = "\<lparr>eventUpdate.ID = ''17'', Payload = Some ''{}'', create = True,
        eventUpdate.asAdmin = True\<rparr>"
  let ?db = "\<lparr>bieter = [''17'' \<mapsto> Some ''[]''], offer = Map.empty, state = stateClosed\<rparr>"
  have valid: "?v ''{}''"
    by simp
  have taken: "create ?e \<and> eventUpdate.ID ?e \<in> dom (bieter ?db)"
    by simp
  from member_event_construction [of ?v "''17''" "Some ''{}''" True "''{}''" ?e ?db] valid taken
  have a: "newEventCreate ?v ''17'' (Some ''{}'') True = (?e, None)"
    and b: "validate (EventUpdate (?e\<lparr>eventUpdate.asAdmin := True\<rparr>)) ?db = Some errIDExists"
    by blast+
  have c: "snd (newEventCreate ?v ''17'' None True) = Some (validationError KeineDaten)"
    by (simp add: newEventCreate_def newEventUpdate_def)
  have d: "snd (newEventUpdate ?v ''17'' (Some ''{'') True) = Some (validationError UngueltigeDaten)"
    by (simp add: newEventUpdate_def)
  from a b c d show ?thesis by simp
qed

text \<open>
  C8. A ClearOffers event passes validation in every store state (it has no privilege
  flag and checks nothing). After its execution the offer map is empty, so the offer
  read for any member ID is the absent value 0; members and phase stay as they were.
\<close>

theorem clear_offers_empties:
  "validate EventOfferClear db = None \<and>
   offer (execute EventOfferClear db) = Map.empty \<and>
   Database_Offer (execute EventOfferClear db) bid = 0 \<and>
   bieter (execute EventOfferClear db) = bieter db \<and>
   state (execute EventOfferClear db) = state db"
  by (simp add: eventOfferClear_validate_def eventOfferClear_execute_def Database_Offer_def)

text \<open>
  C9. Executing a Delete event for the member ID X removes X from the member map and
  changes nothing else: every other member, the phase and the whole offer map stay,
  and with it an offer entry of X, which is still read under the deleted ID.
\<close>

theorem delete_frame:
  "bieter (execute (EventDelete e) db) = (bieter db)(eventDelete.ID e := None) \<and>
   bieter (execute (EventDelete e) db) (eventDelete.ID e) = None \<and>
   offer (execute (EventDelete e) db) = offer db \<and>
   state (execute (EventDelete e) db) = state db \<and>
   Database_Offer (execute (EventDelete e) db) (eventDelete.ID e) =
     Database_Offer db (eventDelete.ID e)"
  by (simp add: eventDelete_execute_def Database_Offer_def)




end
